theory Spec2Isabelle
  imports Main
begin

section \<open>Data model of \<open>src/utils/mergeTree.js\<close>\<close>

text \<open>
  A \<open>WalkerEntry\<close> is what the tree walker hands to the callbacks for one tree at one
  path. Its accessors \<open>mode()\<close>, \<open>oid()\<close>, \<open>type()\<close> are read as fields; \<open>content()\<close>
  may fail or give nothing usable (then \<open>None\<close>), and \<open>_fullpath\<close> is a plain property.
  An absent entry is JavaScript \<open>null\<close>, here \<open>None\<close> of \<open>walker_entry option\<close>.
  The type is the string the accessor returns (\<open>'blob'\<close>, \<open>'tree'\<close>, ...), the mode is
  a number, and a mode of \<open>0\<close> is falsy as in JavaScript.
\<close>

record walker_entry =
  we_mode :: nat
  we_oid :: string
  we_type :: string
  we_content :: "string option"
  we_fullpath :: string

text \<open>
  The object literal \<open>{ mode, path, oid, type }\<close> the callbacks return. The mode is
  optional because \<open>mergeBlobs\<close> returns \<open>ourMode ?? theirMode\<close>, which is \<open>null\<close>
  when both sides are absent. An absent result (\<open>undefined\<close>) is \<open>None\<close> of
  \<open>tree_entry option\<close>.
\<close>

record tree_entry =
  mode :: "nat option"
  path :: string
  oid :: string
  type :: string

text \<open>
  What the code throws. \<open>TypeError\<close> is the JavaScript error of reading a property of
  \<open>null\<close>; the other two are the classes the file imports and constructs. A thrown
  error is identified here by its class; the \<open>code\<close> fields are modelled with
  \<open>MergeAbortedError.js\<close> below.
\<close>

datatype error = MergeNotSupportedError | MergeAbortedError | TypeError

text \<open>
  The caller's \<open>asyncMergeConflictCallback(mergedText, fullpath)\<close>: it returns a text or
  nothing (\<open>Returns None\<close> is \<open>undefined\<close>), or it throws a value whose \<open>message\<close>
  property, if it has one, is the argument of \<open>Throws\<close>.
\<close>

datatype callback_outcome = Returns "string option" | Throws "string option"

type_synonym conflict_callback = "string \<Rightarrow> string \<Rightarrow> callback_outcome"

text \<open>The argument object of \<open>mergeFile\<close>; an argument left \<open>undefined\<close> is \<open>None\<close>.\<close>

record mergeFile_args =
  ourContent :: string
  baseContent :: string
  theirContent :: string
  mf_ourName :: "string option"
  mf_theirName :: "string option"
  mf_baseName :: "string option"
  mf_format :: "string option"
  mf_markerSize :: "nat option"

text \<open>
  The imported functions whose code is not part of the file are parameters:
  \<open>basename\<close>, \<open>mergeFile\<close> (giving \<open>(mergedText, cleanMerge)\<close>),
  \<open>new GitTree(entries).toObject()\<close>, and the hash of the object store.
\<close>

record collaborators =
  basename :: "string \<Rightarrow> string"
  mergeFile :: "mergeFile_args \<Rightarrow> string \<times> bool"
  toObject :: "tree_entry list \<Rightarrow> string"
  shasum :: "string \<Rightarrow> string \<Rightarrow> string"

text \<open>
  The observable effects: the objects persisted in the store (type and bytes, in the
  order written), and the calls made to \<open>mergeFile\<close> and to the conflict callback.
\<close>

record effects =
  persisted :: "(string \<times> string) list"
  mergeFile_calls :: "mergeFile_args list"
  callback_calls :: "(string \<times> string) list"

text \<open>
  The arguments of \<open>mergeTree\<close> that its two callbacks close over (names after their
  defaults are applied). \<open>fs\<close> and \<open>gitdir\<close> name the one store of \<open>effects\<close>.
\<close>

record mergeTree_args =
  ourName :: string
  baseName :: string
  theirName :: string
  dryRun :: bool
  asyncMergeConflictCallback :: "conflict_callback option"

text \<open>The destructured argument object of \<open>mergeBlobs\<close>; a key not passed is \<open>None\<close>.\<close>

record mergeBlobs_args =
  mb_path :: string
  mb_ours :: "walker_entry option"
  mb_base :: "walker_entry option"
  mb_theirs :: "walker_entry option"
  mb_ourName :: "string option"
  mb_theirName :: "string option"
  mb_baseName :: "string option"
  mb_format :: "string option"
  mb_markerSize :: "nat option"
  mb_dryRun :: "bool option"
  mb_asyncMergeConflictCallback :: "conflict_callback option"

section \<open>The object store\<close>

text \<open>
  Modelled from the spec: \<open>writeObject\<close> of \<open>src/storage/writeObject.js\<close> is imported
  but not part of the file. The spec's contract is
  \<open>writeObject({ type, bytes, dryRun }) \<rightarrow> oid\<close>, deterministic and content-addressed,
  with a dry-run mode that computes the oid but does not persist. The flag is tested for
  truthiness, so a \<open>dryRun\<close> that was never passed (\<open>undefined\<close>) persists.
\<close>

definition writeObject ::
  "collaborators \<Rightarrow> string \<Rightarrow> string \<Rightarrow> bool option \<Rightarrow> effects \<Rightarrow> string \<times> effects" where
  "writeObject d ty object dry s =
     (shasum d ty object,
      if dry = Some True then s else s\<lparr>persisted := persisted s @ [(ty, object)]\<rparr>)"

section \<open>\<open>modified\<close>\<close>

definition modified :: "walker_entry option \<Rightarrow> walker_entry option \<Rightarrow> bool" where
  "modified entry base =
     (if entry = None \<and> base = None then False
      else if entry \<noteq> None \<and> base = None then True
      else if entry = None \<and> base \<noteq> None then True
      else if we_type (the entry) = ''tree'' \<and> we_type (the base) = ''tree'' then False
      else if we_type (the entry) = we_type (the base)
              \<and> we_mode (the entry) = we_mode (the base)
              \<and> we_oid (the entry) = we_oid (the base) then False
      else True)"

section \<open>\<open>mergeBlobs\<close>\<close>

text \<open>\<open>!!m\<close> for a mode that is a number or \<open>null\<close>.\<close>

definition truthy :: "nat option \<Rightarrow> bool" where
  "truthy m = (case m of None \<Rightarrow> False | Some n \<Rightarrow> n \<noteq> 0)"

text \<open>
  Lines 307-323: each content starts as the empty string and is replaced only when
  \<open>Buffer.from(await e.content()).toString('utf8')\<close> succeeds; an absent entry or a
  failing \<open>content()\<close> leaves it empty.
\<close>

definition content_text :: "walker_entry option \<Rightarrow> string" where
  "content_text e =
     (case e of None \<Rightarrow> ''''
      | Some w \<Rightarrow> (case we_content w of None \<Rightarrow> '''' | Some c \<Rightarrow> c))"

text \<open>
  Lines 339-346: \<open>base._fullpath\<close>, and when that throws because \<open>base\<close> is \<open>null\<close>,
  \<open>ours?._fullpath || theirs._fullpath\<close>. \<open>None\<close> is the \<open>TypeError\<close> of reading
  \<open>theirs._fullpath\<close> of an absent \<open>theirs\<close>, thrown inside the outer \<open>try\<close>.
\<close>

definition conflict_fullpath ::
  "walker_entry option \<Rightarrow> walker_entry option \<Rightarrow> walker_entry option \<Rightarrow> string option" where
  "conflict_fullpath ours base theirs =
     (case base of
        Some b \<Rightarrow> Some (we_fullpath b)
      | None \<Rightarrow>
          (if ours \<noteq> None \<and> we_fullpath (the ours) \<noteq> '''' then Some (we_fullpath (the ours))
           else (case theirs of None \<Rightarrow> None | Some t \<Rightarrow> Some (we_fullpath t))))"

text \<open>
  Lines 361-368: the final write and the returned entry, with
  \<open>mode: ourMode ?? theirMode\<close>.
\<close>

definition write_merged ::
  "collaborators \<Rightarrow> mergeBlobs_args \<Rightarrow> string \<Rightarrow> effects \<Rightarrow> (error + tree_entry option) \<times> effects" where
  "write_merged d a awaitedMergedText s =
     (let ourMode = map_option we_mode (mb_ours a);
          theirMode = map_option we_mode (mb_theirs a);
          (new_oid, s') = writeObject d ''blob'' awaitedMergedText (mb_dryRun a) s
      in (Inr (Some \<lparr>mode = (case ourMode of Some m \<Rightarrow> Some m | None \<Rightarrow> theirMode),
                      path = mb_path a, oid = new_oid, type = ''blob''\<rparr>), s'))"

text \<open>
  Lines 289-305: the shortcuts taken when the three modes are truthy. \<open>None\<close> means
  that none of them returned and control falls through to the textual merge.
\<close>

definition trivial_merge :: "mergeBlobs_args \<Rightarrow> tree_entry option" where
  "trivial_merge a =
     (let ourMode = map_option we_mode (mb_ours a);
          theirMode = map_option we_mode (mb_theirs a);
          baseMode = map_option we_mode (mb_base a)
      in if truthy baseMode \<and> truthy ourMode \<and> truthy theirMode then
           (let merged_mode = (if baseMode = ourMode then theirMode else ourMode);
                baseOID = we_oid (the (mb_base a));
                oursOID = we_oid (the (mb_ours a));
                theirsOID = we_oid (the (mb_theirs a))
            in if oursOID = theirsOID then
                 Some \<lparr>mode = merged_mode, path = mb_path a, oid = oursOID, type = ''blob''\<rparr>
               else if oursOID = baseOID then
                 Some \<lparr>mode = merged_mode, path = mb_path a, oid = theirsOID, type = ''blob''\<rparr>
               else if theirsOID = baseOID then
                 Some \<lparr>mode = merged_mode, path = mb_path a, oid = oursOID, type = ''blob''\<rparr>
               else None)
         else None)"

text \<open>The argument object handed to \<open>mergeFile\<close> at lines 324-333.\<close>

definition mergeFile_request :: "mergeBlobs_args \<Rightarrow> mergeFile_args" where
  "mergeFile_request a =
     \<lparr>ourContent = content_text (mb_ours a),
      baseContent = content_text (mb_base a),
      theirContent = content_text (mb_theirs a),
      mf_ourName = mb_ourName a,
      mf_theirName = mb_theirName a,
      mf_baseName = mb_baseName a,
      mf_format = mb_format a,
      mf_markerSize = mb_markerSize a\<rparr>"

text \<open>
  Lines 335-359: the conflict branch. Everything thrown inside the \<open>try\<close> (by the
  path lookup, by calling a callback that is \<open>undefined\<close>, or by the callback) is
  caught and rethrown as \<open>MergeAbortedError\<close> when its message is
  \<open>"Aborted merge"\<close> and as \<open>MergeNotSupportedError\<close> otherwise.
\<close>

definition resolve_conflict ::
  "collaborators \<Rightarrow> mergeBlobs_args \<Rightarrow> string \<Rightarrow> effects \<Rightarrow> (error + tree_entry option) \<times> effects" where
  "resolve_conflict d a mergedText s =
     (case conflict_fullpath (mb_ours a) (mb_base a) (mb_theirs a) of
        None \<Rightarrow> (Inl MergeNotSupportedError, s)
      | Some fullpath \<Rightarrow>
          (case mb_asyncMergeConflictCallback a of
             None \<Rightarrow> (Inl MergeNotSupportedError, s)
           | Some callback \<Rightarrow>
               (let s' = s\<lparr>callback_calls := callback_calls s @ [(mergedText, fullpath)]\<rparr>
                in case callback mergedText fullpath of
                     Throws message \<Rightarrow>
                       (if message = Some ''Aborted merge'' then (Inl MergeAbortedError, s')
                        else (Inl MergeNotSupportedError, s'))
                   | Returns awaitedMergedText \<Rightarrow>
                       (if awaitedMergedText = None \<or> awaitedMergedText = Some '''' then (Inr None, s')
                        else write_merged d a (the awaitedMergedText) s'))))"

definition mergeBlobs ::
  "collaborators \<Rightarrow> mergeBlobs_args \<Rightarrow> effects \<Rightarrow> (error + tree_entry option) \<times> effects" where
  "mergeBlobs d a s =
     (case trivial_merge a of
        Some e \<Rightarrow> (Inr (Some e), s)
      | None \<Rightarrow>
          (let (mergedText, cleanMerge) = mergeFile d (mergeFile_request a);
               s' = s\<lparr>mergeFile_calls := mergeFile_calls s @ [mergeFile_request a]\<rparr>
           in if \<not> cleanMerge then resolve_conflict d a mergedText s'
              else write_merged d a mergedText s'))"

section \<open>The callbacks of \<open>mergeTree\<close>\<close>

text \<open>\<open>{ mode: await e.mode(), path, oid: await e.oid(), type: await e.type() }\<close>\<close>

definition entry_of :: "string \<Rightarrow> walker_entry \<Rightarrow> tree_entry" where
  "entry_of p e = \<lparr>mode = Some (we_mode e), path = p, oid = we_oid e, type = we_type e\<rparr>"

text \<open>\<open>e && (await e.type()) === ty\<close>\<close>

definition has_type :: "walker_entry option \<Rightarrow> string \<Rightarrow> bool" where
  "has_type e ty = (case e of None \<Rightarrow> False | Some w \<Rightarrow> we_type w = ty)"

text \<open>
  The four calls of \<open>mergeBlobs\<close>. The first (lines 105-116) passes \<open>baseName\<close>; the
  other three (lines 124-134, 156-166, 171-181) do not. None of them passes
  \<open>dryRun\<close>, \<open>format\<close> or \<open>markerSize\<close>.
\<close>

definition blobs_call_with_baseName ::
  "mergeTree_args \<Rightarrow> string \<Rightarrow> walker_entry option \<Rightarrow> walker_entry option \<Rightarrow> walker_entry option
     \<Rightarrow> mergeBlobs_args" where
  "blobs_call_with_baseName c p ours base theirs =
     \<lparr>mb_path = p, mb_ours = ours, mb_base = base, mb_theirs = theirs,
      mb_ourName = Some (ourName c), mb_theirName = Some (theirName c),
      mb_baseName = Some (baseName c),
      mb_format = None, mb_markerSize = None, mb_dryRun = None,
      mb_asyncMergeConflictCallback = asyncMergeConflictCallback c\<rparr>"

definition blobs_call ::
  "mergeTree_args \<Rightarrow> string \<Rightarrow> walker_entry option \<Rightarrow> walker_entry option \<Rightarrow> walker_entry option
     \<Rightarrow> mergeBlobs_args" where
  "blobs_call c p ours base theirs =
     \<lparr>mb_path = p, mb_ours = ours, mb_base = base, mb_theirs = theirs,
      mb_ourName = Some (ourName c), mb_theirName = Some (theirName c),
      mb_baseName = None,
      mb_format = None, mb_markerSize = None, mb_dryRun = None,
      mb_asyncMergeConflictCallback = asyncMergeConflictCallback c\<rparr>"

text \<open>
  Lines 95-186, the case \<open>'true-true'\<close>, one branch per \<open>if\<close> of the source and in
  its order. The conditions at lines 120-122 and 137 read \<open>ours.type()\<close> and then
  \<open>theirs.type()\<close> as soon as \<open>base === null\<close> holds, without a guard: on an absent
  entry that is a \<open>TypeError\<close>, which the branches marked so make explicit.
\<close>

definition both_changed ::
  "collaborators \<Rightarrow> mergeTree_args \<Rightarrow> string
     \<Rightarrow> walker_entry option \<Rightarrow> walker_entry option \<Rightarrow> walker_entry option
     \<Rightarrow> effects \<Rightarrow> (error + tree_entry option) \<times> effects" where
  "both_changed d c p ours base theirs s =
     (if has_type ours ''blob'' \<and> has_type base ''blob'' \<and> has_type theirs ''blob'' then
        mergeBlobs d (blobs_call_with_baseName c p ours base theirs) s
      else if base = None \<and> ours = None then
        \<comment> \<open>line 121, \<open>ours.type()\<close> of \<open>null\<close>\<close>
        (Inl TypeError, s)
      else if base = None \<and> has_type ours ''blob'' \<and> theirs = None then
        \<comment> \<open>line 122, \<open>theirs.type()\<close> of \<open>null\<close>\<close>
        (Inl TypeError, s)
      else if base = None \<and> has_type ours ''blob'' \<and> has_type theirs ''blob'' then
        mergeBlobs d (blobs_call c p ours base theirs) s
      else if base = None \<and> has_type ours ''tree'' \<and> theirs = None then
        \<comment> \<open>line 137, \<open>theirs.type()\<close> of \<open>null\<close>\<close>
        (Inl TypeError, s)
      else if base = None \<and> has_type ours ''tree'' \<and> has_type theirs ''tree'' then
        (case ours of None \<Rightarrow> (Inr None, s) | Some e \<Rightarrow> (Inr (Some (entry_of p e)), s))
      else if base \<noteq> None \<and> ours = None \<and> theirs = None then
        (Inr None, s)
      else if base \<noteq> None \<and> ours \<noteq> None \<and> theirs = None \<and> has_type ours ''blob'' then
        mergeBlobs d (blobs_call c p ours base theirs) s
      else if base \<noteq> None \<and> theirs \<noteq> None \<and> ours = None \<and> has_type theirs ''blob'' then
        mergeBlobs d (blobs_call c p ours base theirs) s
      else (Inl MergeNotSupportedError, s))"

text \<open>
  Lines 61-192, the \<open>map\<close> callback. The \<open>switch\<close> is over the two booleans, so its
  \<open>default\<close> branch has no input. In the case \<open>'false-false'\<close> the code reads
  \<open>base.mode()\<close> without a guard.
\<close>

definition mergeTree_map ::
  "collaborators \<Rightarrow> mergeTree_args \<Rightarrow> string
     \<Rightarrow> walker_entry option \<Rightarrow> walker_entry option \<Rightarrow> walker_entry option
     \<Rightarrow> effects \<Rightarrow> (error + tree_entry option) \<times> effects" where
  "mergeTree_map d c filepath ours base theirs s =
     (let p = basename d filepath;
          ourChange = modified ours base;
          theirChange = modified theirs base
      in if \<not> ourChange \<and> \<not> theirChange then
           (case base of None \<Rightarrow> (Inl TypeError, s) | Some b \<Rightarrow> (Inr (Some (entry_of p b)), s))
         else if \<not> ourChange \<and> theirChange then
           (case theirs of None \<Rightarrow> (Inr None, s) | Some t \<Rightarrow> (Inr (Some (entry_of p t)), s))
         else if ourChange \<and> \<not> theirChange then
           (case ours of None \<Rightarrow> (Inr None, s) | Some e \<Rightarrow> (Inr (Some (entry_of p e)), s))
         else both_changed d c p ours base theirs s)"

text \<open>
  Lines 197-219, the \<open>reduce\<close> callback. \<open>children.filter(Boolean)\<close> keeps the present
  children; the tree is written with the \<open>dryRun\<close> of \<open>mergeTree\<close>.
\<close>

definition surviving :: "tree_entry option list \<Rightarrow> tree_entry list" where
  "surviving children = map the (filter (\<lambda>e. e \<noteq> None) children)"

definition mergeTree_reduce ::
  "collaborators \<Rightarrow> mergeTree_args \<Rightarrow> tree_entry option \<Rightarrow> tree_entry option list
     \<Rightarrow> effects \<Rightarrow> tree_entry option \<times> effects" where
  "mergeTree_reduce d c parent children s =
     (let entries = surviving children
      in case parent of
           None \<Rightarrow> (None, s)
         | Some p \<Rightarrow>
             if type p = ''tree'' \<and> entries = [] then (None, s)
             else if entries \<noteq> [] then
               (let (new_oid, s') = writeObject d ''tree'' (toObject d entries) (Some (dryRun c)) s
                in (Some (p\<lparr>oid := new_oid\<rparr>), s'))
             else (Some p, s))"

section \<open>\<open>MergeAbortedError.js\<close>\<close>



text \<open>
  The static \<open>code\<close> properties of the two error classes, by which a caller compares
  \<open>err.code\<close> with \<open>MergeAbortedError.code\<close> or \<open>MergeNotSupportedError.code\<close>;
  \<open>None\<close> is \<open>undefined\<close>.
\<close>

record class_codes =
  MergeNotSupportedError_code :: "string option"
  MergeAbortedError_code :: "string option"

text \<open>
  Evaluating the module. The class declaration of lines 372-378 gives
  \<open>MergeAbortedError\<close> no static \<open>code\<close>, and line 381 assigns
  \<open>MergeNotSupportedError.code = 'MergeAbortedError'\<close>. The file does not import
  \<open>MergeNotSupportedError\<close>: where the identifier is bound when the line runs (modules
  put together in one scope) the assignment happens; where it is not, the line throws a
  \<open>ReferenceError\<close> and the module does not load, which is \<open>None\<close>.
\<close>

definition MergeAbortedError_module :: "bool \<Rightarrow> class_codes \<Rightarrow> class_codes option" where
  "MergeAbortedError_module MergeNotSupportedError_bound codes =
     (if MergeNotSupportedError_bound
      then Some (codes\<lparr>MergeNotSupportedError_code := Some ''MergeAbortedError''\<rparr>)
      else None)"

section \<open>Sample collaborators and entries\<close>

text \<open>
  Stand-ins for the external functions, used where a statement is evaluated at a concrete
  input: the last path component; a text merger that merges three texts with the same
  number of lines line by line (a line changed on one side only takes that side) and
  otherwise reports a conflict with the two sides between markers; and transparent
  encodings of trees and hashes.
\<close>

definition sample_basename :: "string \<Rightarrow> string" where
  "sample_basename p = rev (takeWhile (\<lambda>ch. ch \<noteq> CHR ''/'') (rev p))"

fun split_lines :: "string \<Rightarrow> string list" where
  "split_lines [] = []"
| "split_lines (ch # cs) =
     (if ch = CHR ''\<newline>'' then [ch] # split_lines cs
      else (case split_lines cs of [] \<Rightarrow> [[ch]] | l # ls \<Rightarrow> (ch # l) # ls))"

fun merge_lines :: "string list \<Rightarrow> string list \<Rightarrow> string list \<Rightarrow> string list option" where
  "merge_lines [] [] [] = Some []"
| "merge_lines (x # xs) (b # bs) (y # ys) =
     (if x = b then map_option ((#) y) (merge_lines xs bs ys)
      else if y = b \<or> x = y then map_option ((#) x) (merge_lines xs bs ys)
      else None)"
| "merge_lines _ _ _ = None"

definition conflict_markers :: "mergeFile_args \<Rightarrow> string" where
  "conflict_markers r =
     ''<<<<<<< '' @ (case mf_ourName r of None \<Rightarrow> ''ours'' | Some n \<Rightarrow> n) @ ''\<newline>''
       @ ourContent r @ ''=======\<newline>'' @ theirContent r
       @ ''>>>>>>> '' @ (case mf_theirName r of None \<Rightarrow> ''theirs'' | Some n \<Rightarrow> n) @ ''\<newline>''"

definition sample_mergeFile :: "mergeFile_args \<Rightarrow> string \<times> bool" where
  "sample_mergeFile r =
     (case merge_lines (split_lines (ourContent r)) (split_lines (baseContent r))
             (split_lines (theirContent r)) of
        Some merged \<Rightarrow> (concat merged, True)
      | None \<Rightarrow> (conflict_markers r, False))"

definition sample_collaborators :: collaborators where
  "sample_collaborators =
     \<lparr>basename = sample_basename,
      mergeFile = sample_mergeFile,
      toObject = (\<lambda>entries. concat (map (\<lambda>e. path e @ '':'' @ oid e @ '';'') entries)),
      shasum = (\<lambda>ty object. ty @ ''#'' @ object)\<rparr>"

definition no_effects :: effects where
  "no_effects = \<lparr>persisted = [], mergeFile_calls = [], callback_calls = []\<rparr>"

definition blob :: "nat \<Rightarrow> string \<Rightarrow> string \<Rightarrow> string \<Rightarrow> walker_entry" where
  "blob m h text p =
     \<lparr>we_mode = m, we_oid = h, we_type = ''blob'', we_content = Some text, we_fullpath = p\<rparr>"

definition directory :: "string \<Rightarrow> string \<Rightarrow> walker_entry" where
  "directory h p =
     \<lparr>we_mode = 16384, we_oid = h, we_type = ''tree'', we_content = None, we_fullpath = p\<rparr>"

definition sample_args :: "bool \<Rightarrow> conflict_callback option \<Rightarrow> mergeTree_args" where
  "sample_args dry callback =
     \<lparr>ourName = ''ours'', baseName = ''ancestor'', theirName = ''theirs'',
      dryRun = dry, asyncMergeConflictCallback = callback\<rparr>"

text \<open>
  Three versions of a five-line file: \<open>ours\<close> changes the first line, \<open>theirs\<close> the
  last, and the merge of the two is clean.
\<close>

definition base_text :: string where
  "base_text = ''a\<newline>b\<newline>c\<newline>d\<newline>e\<newline>''"

definition our_text :: string where
  "our_text = ''A\<newline>b\<newline>c\<newline>d\<newline>e\<newline>''"

definition their_text :: string where
  "their_text = ''a\<newline>b\<newline>c\<newline>d\<newline>E\<newline>''"

definition merged_text :: string where
  "merged_text = ''A\<newline>b\<newline>c\<newline>d\<newline>E\<newline>''"

text \<open>
  A call of \<open>mergeBlobs\<close> as the \<open>map\<close> callback makes it for three blobs where both
  sides appended a different line to the base: the merge is not clean, so the callback
  decides.
\<close>

definition conflicting_call :: "conflict_callback \<Rightarrow> mergeBlobs_args" where
  "conflicting_call callback =
     blobs_call_with_baseName (sample_args False (Some callback)) ''a.txt''
       (Some (blob 33188 ''h2'' ''A\<newline>B\<newline>'' ''src/a.txt''))
       (Some (blob 33188 ''h1'' ''A\<newline>'' ''src/a.txt''))
       (Some (blob 33188 ''h3'' ''A\<newline>C\<newline>'' ''src/a.txt''))"

section \<open>Change detection\<close>

text \<open>
  Claim C5: \<open>modified(entry, base)\<close> is false when both are absent, true when exactly one
  is present, false when both are present and both are trees, false when both are present
  with the same type, mode and oid, and true otherwise.
\<close>

theorem modified_cases:
  "(entry = None \<and> base = None \<longrightarrow> \<not> modified entry base)
   \<and> ((entry = None) \<noteq> (base = None) \<longrightarrow> modified entry base)
   \<and> (\<forall>e b. entry = Some e \<and> base = Some b \<and> we_type e = ''tree'' \<and> we_type b = ''tree''
          \<longrightarrow> \<not> modified entry base)
   \<and> (\<forall>e b. entry = Some e \<and> base = Some b
            \<and> we_type e = we_type b \<and> we_mode e = we_mode b \<and> we_oid e = we_oid b
          \<longrightarrow> \<not> modified entry base)
   \<and> (\<forall>e b. entry = Some e \<and> base = Some b
            \<and> \<not> (we_type e = ''tree'' \<and> we_type b = ''tree'')
            \<and> \<not> (we_type e = we_type b \<and> we_mode e = we_mode b \<and> we_oid e = we_oid b)
          \<longrightarrow> modified entry base)"
  by (cases entry; cases base) (simp_all add: modified_def)

theorem modified_cases_witness:
  "\<not> modified None None
   \<and> modified (Some (blob 33188 ''h1'' ''text'' ''a'')) None
   \<and> modified None (Some (blob 33188 ''h1'' ''text'' ''a''))
   \<and> \<not> modified (Some (directory ''d1'' ''a'')) (Some (directory ''d2'' ''a''))
   \<and> \<not> modified (Some (blob 33188 ''h1'' ''text'' ''a'')) (Some (blob 33188 ''h1'' ''text'' ''a''))
   \<and> modified (Some (blob 33261 ''h1'' ''text'' ''a'')) (Some (blob 33188 ''h1'' ''text'' ''a''))"
  using modified_cases [of None None]
    modified_cases [of "Some (blob 33188 ''h1'' ''text'' ''a'')" None]
    modified_cases [of None "Some (blob 33188 ''h1'' ''text'' ''a'')"]
    modified_cases [of "Some (directory ''d1'' ''a'')" "Some (directory ''d2'' ''a'')"]
    modified_cases [of "Some (blob 33188 ''h1'' ''text'' ''a'')" "Some (blob 33188 ''h1'' ''text'' ''a'')"]
    modified_cases [of "Some (blob 33261 ''h1'' ''text'' ''a'')" "Some (blob 33188 ''h1'' ''text'' ''a'')"]
  by (simp add: blob_def directory_def)

lemma unmodified_both_base_present:
  assumes "ours \<noteq> None \<or> base \<noteq> None \<or> theirs \<noteq> None"
    and "\<not> modified ours base" and "\<not> modified theirs base"
  shows "base \<noteq> None"
proof
  assume absent: "base = None"
  with assms(2) have "ours = None" by (cases ours) (simp_all add: modified_def)
  moreover from absent assms(3) have "theirs = None" by (cases theirs) (simp_all add: modified_def)
  ultimately show False using assms(1) absent by simp
qed

text \<open>
  Claim C10: for a triple with at least one entry present, if neither \<open>ours\<close> nor
  \<open>theirs\<close> is modified against \<open>base\<close>, then \<open>base\<close> is present; so the pass-through
  branch returns the entry of \<open>base\<close> and never reads a property of an absent entry.
\<close>

theorem pass_through_base_present:
  assumes "ours \<noteq> None \<or> base \<noteq> None \<or> theirs \<noteq> None"
    and "\<not> modified ours base" and "\<not> modified theirs base"
  shows "base \<noteq> None
    \<and> mergeTree_map d c filepath ours base theirs s
        = (Inr (Some (entry_of (basename d filepath) (the base))), s)
    \<and> fst (mergeTree_map d c filepath ours base theirs s) \<noteq> Inl TypeError"
proof -
  from assms have present: "base \<noteq> None" by (rule unmodified_both_base_present)
  then obtain b where b: "base = Some b" by auto
  with assms(2,3) show ?thesis
    by (simp add: mergeTree_map_def Let_def)
qed

theorem pass_through_base_present_witness:
  "mergeTree_map sample_collaborators (sample_args False None) ''src/a.txt''
      (Some (blob 33188 ''h1'' ''text'' ''src/a.txt''))
      (Some (blob 33188 ''h1'' ''text'' ''src/a.txt''))
      (Some (blob 33188 ''h1'' ''text'' ''src/a.txt'')) no_effects
    = (Inr (Some \<lparr>mode = Some 33188, path = ''a.txt'', oid = ''h1'', type = ''blob''\<rparr>), no_effects)"
  using pass_through_base_present [of "Some (blob 33188 ''h1'' ''text'' ''src/a.txt'')"
      "Some (blob 33188 ''h1'' ''text'' ''src/a.txt'')"
      "Some (blob 33188 ''h1'' ''text'' ''src/a.txt'')"
      sample_collaborators "sample_args False None" "''src/a.txt''" no_effects]
  by (simp add: modified_def blob_def entry_of_def sample_collaborators_def sample_basename_def)

section \<open>Tree reduction\<close>

text \<open>
  Claim C4: in \<open>reduce\<close>, an absent parent gives an absent result whatever the children
  are; a parent of type tree with no surviving child gives an absent result, whatever oid
  the parent carried before; and the only object \<open>reduce\<close> ever persists is the tree of a
  non-empty list of surviving children, so no empty tree is written.
\<close>

theorem reduce_prunes:
  "mergeTree_reduce d c None children s = (None, s)
   \<and> (type p = ''tree'' \<and> surviving children = []
        \<longrightarrow> mergeTree_reduce d c (Some p) children s = (None, s))
   \<and> persisted (snd (mergeTree_reduce d c parent children s))
       = persisted s @
           (if parent \<noteq> None \<and> surviving children \<noteq> [] \<and> \<not> dryRun c
            then [(''tree'', toObject d (surviving children))] else [])"
  by (cases parent) (simp_all add: mergeTree_reduce_def writeObject_def Let_def)

theorem reduce_prunes_witness:
  "mergeTree_reduce sample_collaborators (sample_args False None)
       (Some \<lparr>mode = Some 16384, path = ''lib'', oid = ''d1'', type = ''tree''\<rparr>) [None, None] no_effects
     = (None, no_effects)"
  using reduce_prunes [of sample_collaborators "sample_args False None" "[None, None]" no_effects
      "\<lparr>mode = Some 16384, path = ''lib'', oid = ''d1'', type = ''tree''\<rparr>" None]
  by (simp add: surviving_def)

section \<open>The decision table\<close>

text \<open>
  Claim C2 says that a path where \<open>base\<close> holds a blob, \<open>ours\<close> turned it into a
  directory and \<open>theirs\<close> kept the identical blob fails with \<open>MergeNotSupportedError\<close>.
  At such a path \<open>modified(ours, base)\<close> is true and \<open>modified(theirs, base)\<close> is false,
  which is the case \<open>'true-false'\<close>: the callback returns the entry of \<open>ours\<close>.
\<close>

theorem blob_to_directory_counterexample:
  "fst (mergeTree_map sample_collaborators (sample_args False None) ''src/a''
          (Some (directory ''d1'' ''src/a''))
          (Some (blob 33188 ''h1'' ''text'' ''src/a''))
          (Some (blob 33188 ''h1'' ''text'' ''src/a'')) no_effects)
     = Inr (Some \<lparr>mode = Some 16384, path = ''a'', oid = ''d1'', type = ''tree''\<rparr>)
   \<and> fst (mergeTree_map sample_collaborators (sample_args False None) ''src/a''
          (Some (directory ''d1'' ''src/a''))
          (Some (blob 33188 ''h1'' ''text'' ''src/a''))
          (Some (blob 33188 ''h1'' ''text'' ''src/a'')) no_effects)
     \<noteq> Inl MergeNotSupportedError"
  by (simp add: mergeTree_map_def modified_def blob_def directory_def entry_of_def Let_def
      sample_collaborators_def sample_basename_def)

text \<open>
  Claim C2, amended: where \<open>base\<close> holds a blob and \<open>ours\<close> holds a directory, the
  callback returns the entry of \<open>ours\<close> unchanged and without effect when \<open>theirs\<close> is the
  identical blob, and fails with \<open>MergeNotSupportedError\<close> when \<open>theirs\<close> is modified
  against \<open>base\<close> as well.
\<close>

theorem blob_to_directory_takes_ours:
  assumes "we_type b = ''blob''" and "we_type e = ''tree''"
  shows "(theirs = Some t \<and> we_type t = ''blob'' \<and> we_mode t = we_mode b \<and> we_oid t = we_oid b
            \<longrightarrow> mergeTree_map d c filepath (Some e) (Some b) theirs s
                  = (Inr (Some (entry_of (basename d filepath) e)), s))
       \<and> (modified theirs (Some b)
            \<longrightarrow> mergeTree_map d c filepath (Some e) (Some b) theirs s
                  = (Inl MergeNotSupportedError, s))"
  using assms
  by (cases theirs) (auto simp add: mergeTree_map_def both_changed_def has_type_def modified_def Let_def)

theorem blob_to_directory_takes_ours_witness:
  "mergeTree_map sample_collaborators (sample_args False None) ''src/a''
          (Some (directory ''d1'' ''src/a''))
          (Some (blob 33188 ''h1'' ''text'' ''src/a''))
          (Some (blob 33188 ''h1'' ''text'' ''src/a'')) no_effects
     = (Inr (Some \<lparr>mode = Some 16384, path = ''a'', oid = ''d1'', type = ''tree''\<rparr>), no_effects)
   \<and> mergeTree_map sample_collaborators (sample_args False None) ''src/a''
          (Some (directory ''d1'' ''src/a''))
          (Some (blob 33188 ''h1'' ''text'' ''src/a''))
          (Some (blob 33188 ''h2'' ''more'' ''src/a'')) no_effects
     = (Inl MergeNotSupportedError, no_effects)"
  using blob_to_directory_takes_ours [of "blob 33188 ''h1'' ''text'' ''src/a''" "directory ''d1'' ''src/a''"
      "Some (blob 33188 ''h1'' ''text'' ''src/a'')" "blob 33188 ''h1'' ''text'' ''src/a''"
      sample_collaborators "sample_args False None" "''src/a''" no_effects]
    blob_to_directory_takes_ours [of "blob 33188 ''h1'' ''text'' ''src/a''" "directory ''d1'' ''src/a''"
      "Some (blob 33188 ''h2'' ''more'' ''src/a'')" "blob 33188 ''h2'' ''more'' ''src/a''"
      sample_collaborators "sample_args False None" "''src/a''" no_effects]
  by (simp add: modified_def blob_def directory_def entry_of_def
      sample_collaborators_def sample_basename_def)

section \<open>Blob merge: the shortcuts\<close>

lemma trivial_merge_same_oid:
  assumes "we_mode e \<noteq> 0" "we_mode b \<noteq> 0" "we_mode t \<noteq> 0" "we_oid e = we_oid t"
    and "mb_ours a = Some e" "mb_base a = Some b" "mb_theirs a = Some t"
  shows "trivial_merge a =
     Some \<lparr>mode = Some (if we_mode b = we_mode e then we_mode t else we_mode e),
           path = mb_path a, oid = we_oid e, type = ''blob''\<rparr>"
  using assms by (simp add: trivial_merge_def truthy_def Let_def)

text \<open>Every shortcut returns the mode of the three-way rule.\<close>

lemma trivial_merge_mode:
  assumes "trivial_merge a = Some r"
  shows "\<exists>e b t. mb_ours a = Some e \<and> mb_base a = Some b \<and> mb_theirs a = Some t
           \<and> mode r = Some (if we_mode b = we_mode e then we_mode t else we_mode e)"
  using assms
  by (cases "mb_ours a"; cases "mb_base a"; cases "mb_theirs a")
     (auto simp add: trivial_merge_def truthy_def Let_def split: if_splits)

text \<open>
  Claim C7: when \<open>ours\<close> and \<open>theirs\<close> are blobs that both differ from the blob of
  \<open>base\<close> but carry the same oid, and the three modes are known, the result is that oid
  with the merged mode; \<open>mergeFile\<close> is not called and nothing is persisted.
\<close>

theorem both_sides_same_change:
  assumes blobs: "we_type e = ''blob''" "we_type b = ''blob''" "we_type t = ''blob''"
    and modes: "we_mode e \<noteq> 0" "we_mode b \<noteq> 0" "we_mode t \<noteq> 0"
    and changed: "modified (Some e) (Some b)" "modified (Some t) (Some b)"
    and same: "we_oid e = we_oid t"
  shows "mergeTree_map d c filepath (Some e) (Some b) (Some t) s =
     (Inr (Some \<lparr>mode = Some (if we_mode b = we_mode e then we_mode t else we_mode e),
                 path = basename d filepath, oid = we_oid e, type = ''blob''\<rparr>), s)
     \<and> mergeFile_calls (snd (mergeTree_map d c filepath (Some e) (Some b) (Some t) s)) = mergeFile_calls s
     \<and> persisted (snd (mergeTree_map d c filepath (Some e) (Some b) (Some t) s)) = persisted s"
proof -
  let ?a = "blobs_call_with_baseName c (basename d filepath) (Some e) (Some b) (Some t)"
  have "trivial_merge ?a =
     Some \<lparr>mode = Some (if we_mode b = we_mode e then we_mode t else we_mode e),
           path = basename d filepath, oid = we_oid e, type = ''blob''\<rparr>"
    using trivial_merge_same_oid [OF modes same, of ?a]
    by (simp add: blobs_call_with_baseName_def)
  then have "mergeBlobs d ?a s =
     (Inr (Some \<lparr>mode = Some (if we_mode b = we_mode e then we_mode t else we_mode e),
                 path = basename d filepath, oid = we_oid e, type = ''blob''\<rparr>), s)"
    by (simp add: mergeBlobs_def)
  moreover have "mergeTree_map d c filepath (Some e) (Some b) (Some t) s = mergeBlobs d ?a s"
    using blobs changed
    by (simp add: mergeTree_map_def both_changed_def has_type_def Let_def)
  ultimately show ?thesis by simp
qed

theorem both_sides_same_change_witness:
  "mergeTree_map sample_collaborators (sample_args False None) ''src/a.txt''
      (Some (blob 33188 ''h2'' ''new'' ''src/a.txt''))
      (Some (blob 33188 ''h1'' ''old'' ''src/a.txt''))
      (Some (blob 33261 ''h2'' ''new'' ''src/a.txt'')) no_effects
    = (Inr (Some \<lparr>mode = Some 33261, path = ''a.txt'', oid = ''h2'', type = ''blob''\<rparr>), no_effects)"
  using both_sides_same_change [of "blob 33188 ''h2'' ''new'' ''src/a.txt''"
      "blob 33188 ''h1'' ''old'' ''src/a.txt''" "blob 33261 ''h2'' ''new'' ''src/a.txt''"
      sample_collaborators "sample_args False None" "''src/a.txt''" no_effects]
  by (simp add: modified_def blob_def sample_collaborators_def sample_basename_def)

section \<open>Blob merge: the mode of a textual merge\<close>

text \<open>
  The mode computed at line 290 is local to the block of the shortcuts. A merge that
  falls through to \<open>mergeFile\<close> returns \<open>ourMode ?? theirMode\<close> instead, which is the
  mode of \<open>ours\<close> whenever \<open>ours\<close> is present.
\<close>

lemma write_merged_mode:
  "mb_ours a = Some e \<Longrightarrow>
     \<exists>h s'. write_merged d a text s
        = (Inr (Some \<lparr>mode = Some (we_mode e), path = mb_path a, oid = h, type = ''blob''\<rparr>), s')"
  by (simp add: write_merged_def writeObject_def Let_def)

text \<open>So does every clean textual merge with \<open>ours\<close> present, whatever the other modes are.\<close>

lemma textual_merge_mode:
  assumes "trivial_merge a = None"
    and "mergeFile d (mergeFile_request a) = (mergedText, True)"
    and "mb_ours a = Some e"
  shows "\<exists>h s'. mergeBlobs d a s
        = (Inr (Some \<lparr>mode = Some (we_mode e), path = mb_path a, oid = h, type = ''blob''\<rparr>), s')"
  using assms write_merged_mode [of a e d mergedText]
  by (simp add: mergeBlobs_def Let_def)

text \<open>The example of the mode rule with the same oid on both sides: the mode is 100755.\<close>

lemma mode_inheritance_example:
  "trivial_merge (blobs_call_with_baseName (sample_args False None) ''a.txt''
       (Some (blob 33188 ''h2'' ''new'' ''src/a.txt''))
       (Some (blob 33188 ''h1'' ''old'' ''src/a.txt''))
       (Some (blob 33261 ''h2'' ''new'' ''src/a.txt'')))
     = Some \<lparr>mode = Some 33261, path = ''a.txt'', oid = ''h2'', type = ''blob''\<rparr>"
  by (simp add: trivial_merge_def truthy_def Let_def blobs_call_with_baseName_def blob_def)

text \<open>
  Claim C6 says that with the three modes known the merged mode is the mode of \<open>theirs\<close>
  when \<open>base\<close> and \<open>ours\<close> have the same mode. With base mode 100644 (33188), ours
  mode 100644 and theirs mode 100755 (33261), and three different contents that merge
  cleanly, the returned entry has the mode of \<open>ours\<close>, 100644.
\<close>

theorem textual_merge_keeps_our_mode:
  "fst (mergeTree_map sample_collaborators (sample_args False None) ''src/a.txt''
      (Some (blob 33188 ''h2'' our_text ''src/a.txt''))
      (Some (blob 33188 ''h1'' base_text ''src/a.txt''))
      (Some (blob 33261 ''h3'' their_text ''src/a.txt'')) no_effects)
    = Inr (Some \<lparr>mode = Some 33188, path = ''a.txt'', oid = ''blob#'' @ merged_text,
                 type = ''blob''\<rparr>)"
  by (simp add: mergeTree_map_def both_changed_def has_type_def modified_def blob_def Let_def
      mergeBlobs_def trivial_merge_def truthy_def mergeFile_request_def content_text_def
      blobs_call_with_baseName_def sample_args_def write_merged_def writeObject_def
      sample_collaborators_def sample_basename_def sample_mergeFile_def no_effects_def
      base_text_def our_text_def their_text_def merged_text_def conflict_markers_def)

section \<open>Blob merge: the conflict callback\<close>

lemma conflicting_call_facts:
  "trivial_merge (conflicting_call callback) = None"
  "mergeFile sample_collaborators (mergeFile_request (conflicting_call callback))
     = (conflict_markers (mergeFile_request (conflicting_call callback)), False)"
  "conflict_fullpath (mb_ours (conflicting_call callback)) (mb_base (conflicting_call callback))
      (mb_theirs (conflicting_call callback)) = Some ''src/a.txt''"
  "mb_asyncMergeConflictCallback (conflicting_call callback) = Some callback"
  by (simp_all add: conflicting_call_def blobs_call_with_baseName_def sample_args_def blob_def
      trivial_merge_def truthy_def Let_def mergeFile_request_def content_text_def
      sample_collaborators_def sample_mergeFile_def conflict_fullpath_def)

text \<open>
  Claim C8: when the merge falls through to \<open>mergeFile\<close>, the merge is not clean and the
  callback returns nothing or the empty text, the result of \<open>mergeBlobs\<close> is absent and
  no object is persisted.
\<close>

theorem resolver_empty_deletes:
  assumes "trivial_merge a = None"
    and "mergeFile d (mergeFile_request a) = (mergedText, False)"
    and "conflict_fullpath (mb_ours a) (mb_base a) (mb_theirs a) = Some fullpath"
    and "mb_asyncMergeConflictCallback a = Some callback"
    and "callback mergedText fullpath = Returns r"
    and "r = None \<or> r = Some ''''"
  shows "fst (mergeBlobs d a s) = Inr None
     \<and> persisted (snd (mergeBlobs d a s)) = persisted s"
  using assms by (auto simp add: mergeBlobs_def resolve_conflict_def Let_def)

theorem resolver_empty_deletes_witness:
  "fst (mergeBlobs sample_collaborators (conflicting_call (\<lambda>text p. Returns (Some ''''))) no_effects)
     = Inr None
   \<and> persisted (snd (mergeBlobs sample_collaborators
        (conflicting_call (\<lambda>text p. Returns (Some ''''))) no_effects)) = []"
  using resolver_empty_deletes [OF conflicting_call_facts,
      of "\<lambda>text p. Returns (Some '''')" "Some ''''" no_effects]
  by (simp add: no_effects_def)

text \<open>
  Which class \<open>mergeBlobs\<close> throws when the callback is called and throws (lines
  352-358): \<open>MergeAbortedError\<close> if the message of the thrown value is
  \<open>"Aborted merge"\<close>, and \<open>MergeNotSupportedError\<close> otherwise.
\<close>

lemma resolver_throw_class:
  assumes "trivial_merge a = None"
    and "mergeFile d (mergeFile_request a) = (mergedText, False)"
    and "conflict_fullpath (mb_ours a) (mb_base a) (mb_theirs a) = Some fullpath"
    and "mb_asyncMergeConflictCallback a = Some callback"
    and "callback mergedText fullpath = Throws message"
  shows "fst (mergeBlobs d a s) =
           (if message = Some ''Aborted merge'' then Inl MergeAbortedError
            else Inl MergeNotSupportedError)"
  using assms by (simp add: mergeBlobs_def resolve_conflict_def Let_def)

lemma resolver_throw_class_example:
  "fst (mergeBlobs sample_collaborators
          (conflicting_call (\<lambda>text p. Throws (Some ''Aborted merge''))) no_effects)
     = Inl MergeAbortedError
   \<and> fst (mergeBlobs sample_collaborators
          (conflicting_call (\<lambda>text p. Throws (Some ''disk full''))) no_effects)
     = Inl MergeNotSupportedError"
  using resolver_throw_class [OF conflicting_call_facts,
      of "\<lambda>text p. Throws (Some ''Aborted merge'')" "Some ''Aborted merge''" no_effects]
    resolver_throw_class [OF conflicting_call_facts,
      of "\<lambda>text p. Throws (Some ''disk full'')" "Some ''disk full''" no_effects]
  by simp

text \<open>
  The codes after the module is evaluated, whatever they were before: the code
  \<open>'MergeAbortedError'\<close> is on the class \<open>MergeNotSupportedError\<close>, and the static code
  of \<open>MergeAbortedError\<close> is what it was, so it stays \<open>undefined\<close>.
\<close>

lemma module_codes:
  "MergeAbortedError_module True codes =
     Some \<lparr>MergeNotSupportedError_code = Some ''MergeAbortedError'',
           MergeAbortedError_code = MergeAbortedError_code codes\<rparr>"
  by (simp add: MergeAbortedError_module_def)


section \<open>Dry run\<close>

text \<open>
  The result of each callback does not depend on what was persisted or called before, so
  a second run on the same input computes the same entries; and \<open>reduce\<close> persists
  nothing under \<open>dryRun\<close>.
\<close>

lemma write_merged_result_independent:
  "fst (write_merged d a text s) = fst (write_merged d a text s')"
  by (simp add: write_merged_def writeObject_def Let_def)

lemma resolve_conflict_result_independent:
  "fst (resolve_conflict d a text s) = fst (resolve_conflict d a text s')"
  by (simp add: resolve_conflict_def Let_def write_merged_def writeObject_def
      split: option.splits callback_outcome.splits)

lemma mergeBlobs_result_independent:
  "fst (mergeBlobs d a s) = fst (mergeBlobs d a s')"
  using resolve_conflict_result_independent write_merged_result_independent
  by (simp add: mergeBlobs_def Let_def split: option.splits prod.splits)

lemma both_changed_result_independent:
  "fst (both_changed d c p ours base theirs s) = fst (both_changed d c p ours base theirs s')"
proof (cases ours; cases base; cases theirs)
qed (simp_all add: both_changed_def mergeBlobs_result_independent [of d _ s s'])

lemma map_result_independent:
  "fst (mergeTree_map d c filepath ours base theirs s)
     = fst (mergeTree_map d c filepath ours base theirs s')"
proof (cases ours; cases base; cases theirs)
qed (simp_all add: mergeTree_map_def Let_def both_changed_result_independent [of d c _ _ _ _ s s'])

lemma reduce_result_independent:
  "fst (mergeTree_reduce d c parent children s) = fst (mergeTree_reduce d c parent children s')"
  by (simp add: mergeTree_reduce_def writeObject_def Let_def split: option.splits)

lemma reduce_dry_run_persists_nothing:
  "dryRun c \<Longrightarrow> persisted (snd (mergeTree_reduce d c parent children s)) = persisted s"
  by (simp add: mergeTree_reduce_def writeObject_def Let_def split: option.splits)

text \<open>
  None of the four calls of \<open>mergeBlobs\<close> passes \<open>dryRun\<close>, so the write at lines
  361-367 persists the merged blob whatever \<open>dryRun\<close> of \<open>mergeTree\<close> is.
\<close>

lemma map_never_passes_dryRun:
  "mb_dryRun (blobs_call_with_baseName c p ours base theirs) = None"
  "mb_dryRun (blobs_call c p ours base theirs) = None"
  by (simp_all add: blobs_call_with_baseName_def blobs_call_def)

lemma write_merged_persists:
  "mb_dryRun a = None \<Longrightarrow>
     persisted (snd (write_merged d a text s)) = persisted s @ [(''blob'', text)]"
  by (simp add: write_merged_def writeObject_def Let_def)

lemma clean_merge_persists:
  assumes "trivial_merge a = None"
    and "mergeFile d (mergeFile_request a) = (mergedText, True)"
    and "mb_dryRun a = None"
  shows "persisted (snd (mergeBlobs d a s)) = persisted s @ [(''blob'', mergedText)]"
  using assms by (simp add: mergeBlobs_def Let_def write_merged_persists)

text \<open>
  Claim C1 says that a merge with \<open>dryRun = true\<close> persists no object. With
  \<open>dryRun = true\<close> and three blobs whose contents all differ and merge cleanly, the
  \<open>map\<close> callback persists the merged blob.
\<close>

theorem dry_run_persists_merged_blob:
  "mergeTree_map sample_collaborators (sample_args True None) ''src/a.txt''
      (Some (blob 33188 ''h2'' our_text ''src/a.txt''))
      (Some (blob 33188 ''h1'' base_text ''src/a.txt''))
      (Some (blob 33188 ''h3'' their_text ''src/a.txt'')) no_effects
    = (Inr (Some \<lparr>mode = Some 33188, path = ''a.txt'', oid = ''blob#'' @ merged_text,
                 type = ''blob''\<rparr>),
       \<lparr>persisted = [(''blob'', merged_text)],
        mergeFile_calls =
          [\<lparr>ourContent = our_text, baseContent = base_text, theirContent = their_text,
            mf_ourName = Some ''ours'', mf_theirName = Some ''theirs'',
            mf_baseName = Some ''ancestor'', mf_format = None, mf_markerSize = None\<rparr>],
        callback_calls = []\<rparr>)
   \<and> dryRun (sample_args True None)"
  by (simp add: mergeTree_map_def both_changed_def has_type_def modified_def blob_def Let_def
      mergeBlobs_def trivial_merge_def truthy_def mergeFile_request_def content_text_def
      blobs_call_with_baseName_def sample_args_def write_merged_def writeObject_def
      sample_collaborators_def sample_basename_def sample_mergeFile_def no_effects_def
      base_text_def our_text_def their_text_def merged_text_def conflict_markers_def)

section \<open>The names handed to the text merger\<close>

lemma three_way_passes_baseName:
  "mergeFile_request (blobs_call_with_baseName c p ours base theirs) =
     \<lparr>ourContent = content_text ours, baseContent = content_text base,
      theirContent = content_text theirs,
      mf_ourName = Some (ourName c), mf_theirName = Some (theirName c),
      mf_baseName = Some (baseName c), mf_format = None, mf_markerSize = None\<rparr>"
  by (simp add: mergeFile_request_def blobs_call_with_baseName_def)

lemma other_calls_drop_baseName:
  "mergeFile_request (blobs_call c p ours base theirs) =
     \<lparr>ourContent = content_text ours, baseContent = content_text base,
      theirContent = content_text theirs,
      mf_ourName = Some (ourName c), mf_theirName = Some (theirName c),
      mf_baseName = None, mf_format = None, mf_markerSize = None\<rparr>"
  by (simp add: mergeFile_request_def blobs_call_def)

text \<open>
  Claim C9 says that \<open>mergeFile\<close> always receives the caller's \<open>baseName\<close>. When both
  sides added a blob and \<open>base\<close> is absent, \<open>mergeFile\<close> is called once, with an
  undefined \<open>baseName\<close>, although \<open>mergeTree\<close> was given the base name \<open>ancestor\<close>.
\<close>

theorem baseName_dropped_when_both_added:
  "mergeFile_calls (snd (mergeTree_map sample_collaborators
      (sample_args False (Some (\<lambda>text p. Returns (Some ''x\<newline>y\<newline>'')))) ''src/a.txt''
      (Some (blob 33188 ''h2'' ''x\<newline>'' ''src/a.txt''))
      None
      (Some (blob 33188 ''h3'' ''y\<newline>'' ''src/a.txt'')) no_effects))
    = [\<lparr>ourContent = ''x\<newline>'', baseContent = '''', theirContent = ''y\<newline>'',
        mf_ourName = Some ''ours'', mf_theirName = Some ''theirs'',
        mf_baseName = None, mf_format = None, mf_markerSize = None\<rparr>]
   \<and> baseName (sample_args False (Some (\<lambda>text p. Returns (Some ''x\<newline>y\<newline>'')))) = ''ancestor''"
  by (simp add: mergeTree_map_def both_changed_def has_type_def modified_def blob_def Let_def
      mergeBlobs_def trivial_merge_def truthy_def mergeFile_request_def content_text_def
      blobs_call_def sample_args_def write_merged_def writeObject_def resolve_conflict_def
      conflict_fullpath_def
      sample_collaborators_def sample_basename_def sample_mergeFile_def no_effects_def
      base_text_def our_text_def their_text_def merged_text_def conflict_markers_def)

end
